theory Spec2Isabelle
  imports Complex_Main
begin

section \<open>Python values, strings and exceptions\<close>

text \<open>
  A Python \<open>str\<close> is modelled as a \<open>string\<close> whose characters are code points below 256.
  A Python \<open>float\<close> is idealised as a \<open>real\<close>: comparisons and arithmetic are the exact
  ones, rounding of the binary representation is not modelled.  A raised exception is the
  \<open>Inl\<close> branch of a sum; \<open>str(e)\<close> is the text carried by the exception.
\<close>

datatype exn_class =
    RuntimeError | ValueError | KeyError | TypeError | AttributeError
  | JSONDecodeError | ValidationError | FileNotFoundError | OtherException

datatype exn = Exn exn_class string

fun exn_str :: "exn \<Rightarrow> string" where
  "exn_str (Exn c m) = m"

fun exn_kind :: "exn \<Rightarrow> exn_class" where
  "exn_kind (Exn c m) = c"

datatype status = OK | ALERT

fun status_str :: "status \<Rightarrow> string" where
  "status_str OK = ''OK''"
| "status_str ALERT = ''ALERT''"

section \<open>Ideal-conditions catalog (app/utils/utils.py)\<close>

text \<open>
  The catalog file \<open>data/plants_ideal.json\<close> is read on every lookup.  Its decoded content
  is a parameter of the model: either the exception raised by \<open>open\<close>/\<open>json.load\<close> or the
  list of plant entries.
\<close>

record band =
  b_min :: real
  b_max :: real
  b_ideal :: real

record plant =
  p_id :: string
  p_name :: string
  ic_soil_moisture :: real
  ic_light :: band
  ic_temperature :: band
  tol_soil_moisture :: real
  tol_light :: real
  tol_temperature :: real

type_synonym plants_file = "exn + plant list"

fun find_plant :: "plant list \<Rightarrow> string \<Rightarrow> exn + plant" where
  "find_plant [] plant_id =
     Inl (Exn ValueError (''Plante '' @ plant_id @ '' non trouv'' @ [CHR 0xE9, CHR ''e'']))"
| "find_plant (p # ps) plant_id =
     (if p_id p = plant_id then Inr p else find_plant ps plant_id)"

definition load_plant_data :: "plants_file \<Rightarrow> string \<Rightarrow> exn + plant" where
  "load_plant_data file plant_id =
     (case file of Inl e \<Rightarrow> Inl e | Inr plants \<Rightarrow> find_plant plants plant_id)"

section \<open>Metric comparators (app/nodes)\<close>

text \<open>
  The message of a verdict is an f-string; it is kept as the template chosen together
  with the numbers it discloses, in the order they appear in the text.
\<close>

datatype message =
    SoilOptimal real real
  | SoilTooHigh real real
  | SoilTooLow real real
  | LightOptimal real real
  | LightAcceptable real real real
  | LightTooLow real real real
  | LightTooHigh real real real
  | LightOutOfTolerance real real real
  | TempOptimal real real
  | TempAcceptable real real real
  | TempTooLow real real real
  | TempTooHigh real real real
  | TempOutOfTolerance real real real

datatype ideal_ref = Scalar real | Band band

record verdict =
  parameter :: string
  current :: real
  ideal :: ideal_ref
  difference :: real
  v_status :: status
  v_message :: message

definition soil_moisture :: "plants_file \<Rightarrow> string \<Rightarrow> real \<Rightarrow> exn + verdict" where
  "soil_moisture file plant_type val =
     (case load_plant_data file plant_type of
        Inl e \<Rightarrow> Inl e
      | Inr plant \<Rightarrow>
          (let ideal_v = ic_soil_moisture plant;
               tolerance = tol_soil_moisture plant;
               diff = val - ideal_v;
               st = (if \<bar>diff\<bar> \<le> tolerance then OK else ALERT);
               msg = (if \<bar>diff\<bar> \<le> tolerance then SoilOptimal val ideal_v
                      else if diff > 0 then SoilTooHigh diff ideal_v
                      else SoilTooLow \<bar>diff\<bar> ideal_v)
           in Inr \<lparr>parameter = ''soil_moisture'', current = val, ideal = Scalar ideal_v,
                    difference = diff, v_status = st, v_message = msg\<rparr>))"

definition light :: "plants_file \<Rightarrow> string \<Rightarrow> real \<Rightarrow> exn + verdict" where
  "light file plant_type val =
     (case load_plant_data file plant_type of
        Inl e \<Rightarrow> Inl e
      | Inr plant \<Rightarrow>
          (let ideal_conditions = ic_light plant;
               tolerance = tol_light plant;
               min_light = b_min ideal_conditions;
               max_light = b_max ideal_conditions;
               ideal_light = b_ideal ideal_conditions;
               diff = val - ideal_light;
               st = (if min_light \<le> val \<and> val \<le> max_light then OK
                     else if \<bar>diff\<bar> \<le> tolerance then OK
                     else ALERT);
               msg = (if st = OK then
                        (if \<bar>diff\<bar> \<le> tolerance then LightOptimal val ideal_light
                         else LightAcceptable val min_light max_light)
                      else
                        (if val < min_light then LightTooLow val min_light ideal_light
                         else if val > max_light then LightTooHigh val max_light ideal_light
                         else LightOutOfTolerance val ideal_light tolerance))
           in Inr \<lparr>parameter = ''light'', current = val, ideal = Band ideal_conditions,
                    difference = diff, v_status = st, v_message = msg\<rparr>))"

definition temperature :: "plants_file \<Rightarrow> string \<Rightarrow> real \<Rightarrow> exn + verdict" where
  "temperature file plant_type val =
     (case load_plant_data file plant_type of
        Inl e \<Rightarrow> Inl e
      | Inr plant \<Rightarrow>
          (let ideal_conditions = ic_temperature plant;
               tolerance = tol_temperature plant;
               min_temp = b_min ideal_conditions;
               max_temp = b_max ideal_conditions;
               ideal_temp = b_ideal ideal_conditions;
               diff = val - ideal_temp;
               st = (if min_temp \<le> val \<and> val \<le> max_temp then OK
                     else if \<bar>diff\<bar> \<le> tolerance then OK
                     else ALERT);
               msg = (if st = OK then
                        (if \<bar>diff\<bar> \<le> tolerance then TempOptimal val ideal_temp
                         else TempAcceptable val min_temp max_temp)
                      else
                        (if val < min_temp then TempTooLow val min_temp ideal_temp
                         else if val > max_temp then TempTooHigh val max_temp ideal_temp
                         else TempOutOfTolerance val ideal_temp tolerance))
           in Inr \<lparr>parameter = ''temperature'', current = val, ideal = Band ideal_conditions,
                    difference = diff, v_status = st, v_message = msg\<rparr>))"

section \<open>Trend analyzer (app/nodes/history_node.py)\<close>

text \<open>
  \<open>round(x, ndigits)\<close> on the idealised reals: to the nearest multiple of
  \<open>10 ^ (- ndigits)\<close>, a tie going to the even neighbour.
\<close>

definition py_round :: "real \<Rightarrow> nat \<Rightarrow> real" where
  "py_round x ndigits =
     (let m = 10 ^ ndigits;
          y = x * m;
          f = \<lfloor>y\<rfloor>;
          d = y - of_int f;
          r = (if d < 1 / 2 then f else if d > 1 / 2 then f + 1
               else if even f then f else f + 1)
      in of_int r / m)"

datatype direction = insufficient_data | stable | increasing | decreasing

datatype period = NA | Analyses nat

text \<open>
  The dictionary returned by \<open>calculate_trend\<close> has the keys \<open>change_percent\<close> and
  \<open>average_historical\<close> only on its second return; an absent key is \<open>None\<close>.
\<close>

record trend =
  direction :: direction
  change :: real
  change_percent :: "real option"
  average_historical :: "real option"
  period :: period

definition calculate_trend :: "real list \<Rightarrow> real \<Rightarrow> trend" where
  "calculate_trend vals current_value =
     (if vals = [] \<or> length vals < 2 then
        \<lparr>direction = insufficient_data, change = 0, change_percent = None,
         average_historical = None, period = NA\<rparr>
      else
        (let avg_historical = sum_list vals / real (length vals);
             chg = current_value - avg_historical;
             chg_percent = (if avg_historical > 0 then chg / avg_historical * 100 else 0);
             dir = (if \<bar>chg_percent\<bar> < 2 then stable
                    else if chg > 0 then increasing
                    else decreasing)
         in \<lparr>direction = dir, change = py_round chg 2,
              change_percent = Some (py_round chg_percent 2),
              average_historical = Some (py_round avg_historical 2),
              period = Analyses (length vals)\<rparr>))"

subsection \<open>The store (app/database.py)\<close>

text \<open>
  A row of table \<open>plant_analyses\<close>.  A timestamp is a number of microseconds, so that
  \<open>timedelta.days\<close> is the floor of a difference divided by one day.  The store is its
  rows together with what makes its operations raise: \<open>SessionLocal\<close> still \<open>None\<close>,
  or an exception of the backing store on reads or on writes.
\<close>

type_synonym comparisons = "(string \<times> verdict) list"

record plant_analysis =
  pa_id :: nat
  pa_plant_id :: string
  pa_timestamp :: int
  pa_humidity :: real
  pa_light :: real
  pa_temperature :: real
  pa_comparisons :: comparisons
  pa_status :: string
  pa_message :: string
  pa_action :: string

record database =
  initialized :: bool
  read_fault :: "exn option"
  write_fault :: "exn option"
  rows :: "plant_analysis list"

definition one_day :: int where
  "one_day = 86400000000"

definition get_db :: "database \<Rightarrow> exn + database" where
  "get_db db =
     (if \<not> initialized db
      then Inl (Exn RuntimeError ''Database not initialized. Call init_database() first.'')
      else Inr db)"

text \<open>
  The query of \<open>history\<close>: filter on \<open>plant_id\<close>, order by timestamp descending, limit.
  Rows of equal timestamp come out latest-inserted first.
\<close>

definition query_recent :: "database \<Rightarrow> string \<Rightarrow> nat \<Rightarrow> exn + plant_analysis list" where
  "query_recent db plant_id limit =
     (case read_fault db of
        Some e \<Rightarrow> Inl e
      | None \<Rightarrow>
          Inr (take limit (rev (sort_key pa_timestamp
                 (filter (\<lambda>a. pa_plant_id a = plant_id) (rows db))))))"

definition save_analysis ::
  "database \<Rightarrow> int \<Rightarrow> string \<Rightarrow> real \<Rightarrow> real \<Rightarrow> real \<Rightarrow> comparisons \<Rightarrow> string \<Rightarrow> string \<Rightarrow> string
     \<Rightarrow> int option \<Rightarrow> (exn + plant_analysis) \<times> database" where
  "save_analysis db utcnow plant_id humidity lightv temp comps st msg act timestamp =
     (if \<not> initialized db
      then (Inl (Exn RuntimeError ''Database not initialized. Call init_database() first.''), db)
      else
        (let analysis_timestamp = (case timestamp of Some t \<Rightarrow> t | None \<Rightarrow> utcnow);
             analysis = \<lparr>pa_id = Suc (length (rows db)), pa_plant_id = plant_id,
                         pa_timestamp = analysis_timestamp, pa_humidity = humidity,
                         pa_light = lightv, pa_temperature = temp, pa_comparisons = comps,
                         pa_status = st, pa_message = msg, pa_action = act\<rparr>
         in case write_fault db of
              Some e \<Rightarrow> (Inl e, db)
            | None \<Rightarrow> (Inr analysis, db\<lparr>rows := rows db @ [analysis]\<rparr>)))"

subsection \<open>The history node\<close>

record recent =
  r_timestamp :: int
  r_humidity :: real
  r_light :: real
  r_temperature :: real
  r_status :: string

record stats =
  total_analyses :: nat
  alert_count :: nat
  alert_percentage :: real
  last_alert_date :: "int option"
  time_span_days :: int
  average_humidity :: real
  average_light :: real
  average_temperature :: real
  most_recent_date :: "int option"

datatype summary = NoData nat string | Stats stats

record history_result =
  has_history :: bool
  recent_analyses :: "recent list"
  trends :: "(string \<times> trend) list"
  summary :: summary

text \<open>The state of the \<open>for analysis in analyses\<close> loop.\<close>

record collected =
  c_recent :: "recent list"
  c_humidity :: "real list"
  c_light :: "real list"
  c_temperature :: "real list"
  c_alert_count :: nat
  c_last_alert :: "int option"

fun collect :: "plant_analysis list \<Rightarrow> collected \<Rightarrow> collected" where
  "collect [] c = c"
| "collect (a # as) c =
     collect as
       \<lparr>c_recent = c_recent c @
            [\<lparr>r_timestamp = pa_timestamp a, r_humidity = pa_humidity a, r_light = pa_light a,
              r_temperature = pa_temperature a, r_status = pa_status a\<rparr>],
        c_humidity = c_humidity c @ [pa_humidity a],
        c_light = c_light c @ [pa_light a],
        c_temperature = c_temperature c @ [pa_temperature a],
        c_alert_count = (if pa_status a = ''ALERT'' then c_alert_count c + 1 else c_alert_count c),
        c_last_alert = (if pa_status a = ''ALERT'' \<and> c_last_alert c = None
                        then Some (pa_timestamp a) else c_last_alert c)\<rparr>"

definition metric_trend :: "string \<Rightarrow> real list \<Rightarrow> (string \<times> trend) list" where
  "metric_trend name vals =
     (let current_value = (if vals \<noteq> [] then Some (last vals) else None)
      in case current_value of
           None \<Rightarrow> []
         | Some cur \<Rightarrow>
             (if length vals > 1 then [(name, calculate_trend (butlast vals) cur)] else []))"

definition mean_or_zero :: "real list \<Rightarrow> real" where
  "mean_or_zero vals = (if vals \<noteq> [] then sum_list vals / real (length vals) else 0)"

definition analyse :: "plant_analysis list \<Rightarrow> history_result" where
  "analyse analyses =
     (if analyses = [] then
        \<lparr>has_history = False, recent_analyses = [], trends = [],
         summary = NoData 0 ''No historical data available''\<rparr>
      else
        (let c = collect analyses
                   \<lparr>c_recent = [], c_humidity = [], c_light = [], c_temperature = [],
                    c_alert_count = 0, c_last_alert = None\<rparr>;
             humidity_values = rev (c_humidity c);
             light_values = rev (c_light c);
             temperature_values = rev (c_temperature c);
             trs = metric_trend ''humidity'' humidity_values
                   @ metric_trend ''light'' light_values
                   @ metric_trend ''temperature'' temperature_values;
             total = length analyses;
             days_span =
               (if length analyses > 1 then
                  (let days = (pa_timestamp (hd analyses) - pa_timestamp (last analyses))
                              div one_day
                   in if days > 0 then days else 1)
                else 1);
             summ = \<lparr>total_analyses = total,
                     alert_count = c_alert_count c,
                     alert_percentage =
                       (if total > 0
                        then py_round (real (c_alert_count c) / real total * 100) 1 else 0),
                     last_alert_date = c_last_alert c,
                     time_span_days = days_span,
                     average_humidity = py_round (mean_or_zero humidity_values) 2,
                     average_light = py_round (mean_or_zero light_values) 2,
                     average_temperature = py_round (mean_or_zero temperature_values) 2,
                     most_recent_date = Some (pa_timestamp (hd analyses))\<rparr>
         in \<lparr>has_history = True, recent_analyses = c_recent c, trends = trs,
              summary = Stats summ\<rparr>))"

text \<open>
  \<open>history_try\<close> is the body of the outer \<open>try\<close> of \<open>history\<close>: opening the session
  and running the query may raise.  \<open>history\<close> adds the handler
  \<open>except Exception\<close>, which returns the empty history carrying the text of the error.
\<close>

definition history_try :: "database \<Rightarrow> string \<Rightarrow> nat \<Rightarrow> exn + history_result" where
  "history_try db plant_id limit =
     (case get_db db of
        Inl e \<Rightarrow> Inl e
      | Inr session \<Rightarrow>
          (case query_recent session plant_id limit of
             Inl e \<Rightarrow> Inl e
           | Inr analyses \<Rightarrow> Inr (analyse analyses)))"

definition history :: "database \<Rightarrow> string \<Rightarrow> nat \<Rightarrow> exn + history_result" where
  "history db plant_id limit =
     (case history_try db plant_id limit of
        Inr result \<Rightarrow> Inr result
      | Inl e \<Rightarrow>
          Inr \<lparr>has_history = False, recent_analyses = [], trends = [],
               summary = NoData 0 (''Error retrieving history: '' @ exn_str e)\<rparr>)"

section \<open>Response normalisation (app/agent.py, lines 268 to 345)\<close>

text \<open>
  Values of the Python runtime as \<open>json.loads\<close> and \<open>ast.literal_eval\<close> produce them.
  A dictionary is the list of its items, looked up with \<open>map_of\<close>; \<open>POther\<close> is any
  other object, given by the name of its type.
\<close>

datatype pyval =
    PNone
  | PBool bool
  | PInt int
  | PFloat real
  | PStr string
  | PList "pyval list"
  | PDict "(string \<times> pyval) list"
  | POther string

text \<open>
  The functions of the standard library and of pydantic that the normaliser calls are
  parameters: the JSON decoder, the literal evaluator, \<open>str\<close> on an object that is not a
  \<open>str\<close>, and the conversion pydantic applies to a value that is not a \<open>str\<close> when the
  field is declared \<open>str\<close> (\<open>None\<close> where it rejects the value).
\<close>

record pylib =
  json_loads :: "string \<Rightarrow> exn + pyval"
  literal_eval :: "string \<Rightarrow> exn + pyval"
  builtin_str :: "pyval \<Rightarrow> string"
  pydantic_str :: "pyval \<Rightarrow> string option"

datatype log_record = LogError string | LogWarning string

fun type_name :: "pyval \<Rightarrow> string" where
  "type_name PNone = ''NoneType''"
| "type_name (PBool b) = ''bool''"
| "type_name (PInt i) = ''int''"
| "type_name (PFloat x) = ''float''"
| "type_name (PStr s) = ''str''"
| "type_name (PList xs) = ''list''"
| "type_name (PDict kvs) = ''dict''"
| "type_name (POther t) = t"

definition digit_char :: "nat \<Rightarrow> char" where
  "digit_char d = ''0123456789'' ! d"

fun show_nat :: "nat \<Rightarrow> string" where
  "show_nat n = (if n < 10 then [digit_char n] else show_nat (n div 10) @ [digit_char (n mod 10)])"

text \<open>\<open>s.find(c)\<close> and \<open>s.rfind(c)\<close> for a single character, \<open>-1\<close> when it is absent.\<close>

definition py_find :: "string \<Rightarrow> char \<Rightarrow> int" where
  "py_find s c = (if c \<in> set s then int (length (takeWhile (\<lambda>x. x \<noteq> c) s)) else - 1)"

definition py_rfind :: "string \<Rightarrow> char \<Rightarrow> int" where
  "py_rfind s c =
     (if c \<in> set s then int (length s) - 1 - int (length (takeWhile (\<lambda>x. x \<noteq> c) (rev s)))
      else - 1)"

text \<open>\<open>s[i:j]\<close> for bounds that are not negative.\<close>

definition py_slice :: "string \<Rightarrow> int \<Rightarrow> int \<Rightarrow> string" where
  "py_slice s i j = take (nat j - nat i) (drop (nat i) s)"

text \<open>\<open>str.isspace\<close> on the code points below 256, and \<open>str.strip()\<close>.\<close>

definition py_isspace :: "char \<Rightarrow> bool" where
  "py_isspace c =
     (let n = of_char c :: nat
      in (9 \<le> n \<and> n \<le> 13) \<or> (28 \<le> n \<and> n \<le> 32) \<or> n = 133 \<or> n = 160)"

definition py_strip :: "string \<Rightarrow> string" where
  "py_strip s = rev (dropWhile py_isspace (rev (dropWhile py_isspace s)))"

definition startswith :: "string \<Rightarrow> char \<Rightarrow> bool" where
  "startswith s c = (s \<noteq> [] \<and> hd s = c)"

definition endswith :: "string \<Rightarrow> char \<Rightarrow> bool" where
  "endswith s c = (s \<noteq> [] \<and> last s = c)"

text \<open>\<open>s[1:-1]\<close> on a string that is not empty.\<close>

definition strip_ends :: "string \<Rightarrow> string" where
  "strip_ends s = butlast (tl s)"

text \<open>\<open>d.get(key, default)\<close>; the attribute is missing on anything but a dictionary.\<close>

fun dict_get :: "pyval \<Rightarrow> string \<Rightarrow> pyval \<Rightarrow> exn + pyval" where
  "dict_get (PDict kvs) k d = Inr (case map_of kvs k of Some v \<Rightarrow> v | None \<Rightarrow> d)"
| "dict_get v k d =
     Inl (Exn AttributeError
            ([CHR 0x27] @ type_name v @ [CHR 0x27] @ '' object has no attribute ''
             @ [CHR 0x27] @ ''get'' @ [CHR 0x27]))"

text \<open>
  \<open>sep.join(xs)\<close>: every item has to be a \<open>str\<close>, the first that is not raises
  \<open>TypeError\<close>.
\<close>

fun join_items :: "nat \<Rightarrow> pyval list \<Rightarrow> exn + string list" where
  "join_items i [] = Inr []"
| "join_items i (PStr s # xs) =
     (case join_items (Suc i) xs of Inl e \<Rightarrow> Inl e | Inr ss \<Rightarrow> Inr (s # ss))"
| "join_items i (v # xs) =
     Inl (Exn TypeError (''sequence item '' @ show_nat i @ '': expected str instance, ''
                         @ type_name v @ '' found''))"

fun intercalate :: "string \<Rightarrow> string list \<Rightarrow> string" where
  "intercalate sep [] = []"
| "intercalate sep [s] = s"
| "intercalate sep (s # t # ss) = s @ sep @ intercalate sep (t # ss)"

definition py_join :: "string \<Rightarrow> pyval list \<Rightarrow> exn + string" where
  "py_join sep xs = (case join_items 0 xs of Inl e \<Rightarrow> Inl e | Inr ss \<Rightarrow> Inr (intercalate sep ss))"

text \<open>An item inside an f-string: a \<open>str\<close> as it is, anything else through \<open>str\<close>.\<close>

definition py_format :: "pylib \<Rightarrow> pyval \<Rightarrow> string" where
  "py_format lib v = (case v of PStr s \<Rightarrow> s | _ \<Rightarrow> builtin_str lib v)"

text \<open>
  The conversion of a list of actions into a sentence.  The source has this block
  twice, on the decoded list (lines 299 to 306) and on the list read back from a
  string (lines 325 to 331).
\<close>

definition list_sentence :: "pylib \<Rightarrow> pyval list \<Rightarrow> exn + string" where
  "list_sentence lib xs =
     (if length xs = 0 then Inr ''No action needed''
      else if length xs = 1 then Inr (''Take action: '' @ py_format lib (hd xs))
      else
        (case py_join '', '' (butlast xs) of
           Inl e \<Rightarrow> Inl e
         | Inr joined \<Rightarrow>
             Inr (''Take multiple actions: '' @ joined @ '' and '' @ py_format lib (last xs))))"

definition fallback_result :: "string \<Rightarrow> pyval" where
  "fallback_result response =
     PDict [(''status'', PStr ''OK''), (''message'', PStr response), (''action'', PStr ''aucune'')]"

text \<open>Lines 272 to 274: the text from the first \<open>{\<close> to the last \<open>}\<close>.\<close>

definition json_str :: "string \<Rightarrow> string" where
  "json_str response =
     (let start = py_find response CHR ''{'';
          stop = py_rfind response CHR ''}'' + 1
      in py_slice response start stop)"

text \<open>Lines 269 to 291: the candidate result, with the warnings logged on the way.\<close>

definition decode_response :: "pylib \<Rightarrow> string \<Rightarrow> (exn + pyval) \<times> log_record list" where
  "decode_response lib response =
     (if CHR ''{'' \<in> set response \<and> CHR ''}'' \<in> set response then
        (case json_loads lib (json_str response) of
           Inr result \<Rightarrow> (Inr result, [])
         | Inl e \<Rightarrow>
             (if exn_kind e = JSONDecodeError then
                (Inr (fallback_result response),
                 [LogWarning (''Could not parse JSON from agent response: '' @ response
                              @ '', error: '' @ exn_str e)])
              else (Inl e, [])))
      else
        (Inr (fallback_result response),
         [LogWarning (''Agent response does not contain JSON: '' @ response)]))"

text \<open>Lines 294 to 309: the action of the candidate as a string.\<close>

definition action_text :: "pylib \<Rightarrow> pyval \<Rightarrow> exn + string" where
  "action_text lib result =
     (case dict_get result ''action'' (PStr ''No action needed'') of
        Inl e \<Rightarrow> Inl e
      | Inr action_value \<Rightarrow>
          (case action_value of
             PList xs \<Rightarrow> list_sentence lib xs
           | PStr s \<Rightarrow> Inr s
           | _ \<Rightarrow> Inr (builtin_str lib action_value)))"

text \<open>
  Lines 312 to 338: the clean-up of the string.  The bare \<open>except\<close> around the literal
  evaluation leaves the string as it is whatever is raised inside.
\<close>

definition clean_action :: "pylib \<Rightarrow> string \<Rightarrow> string" where
  "clean_action lib action_value =
     (let a1 = py_strip action_value;
          a2 = (if startswith a1 (CHR 0x22) \<and> endswith a1 (CHR 0x22) then strip_ends a1 else a1);
          a3 = (if startswith a2 (CHR 0x27) \<and> endswith a2 (CHR 0x27) then strip_ends a2 else a2);
          a4 = (if startswith a3 CHR ''['' \<and> endswith a3 CHR '']'' then
                  (case literal_eval lib a3 of
                     Inr (PList parsed_list) \<Rightarrow>
                       (case list_sentence lib parsed_list of Inr s \<Rightarrow> s | Inl e \<Rightarrow> a3)
                   | _ \<Rightarrow> a3)
                else a3)
      in if a4 = [] then ''No action needed'' else a4)"

text \<open>
  The response model (app/models.py): \<open>status\<close> is \<open>Literal["OK", "ALERT"]\<close>,
  \<open>message\<close> and \<open>action\<close> are \<open>str\<close>.  Its constructor validates the fields; the
  text of the validation error is reduced to the name of the model.
\<close>

record analysis_response =
  ar_status :: status
  ar_message :: string
  ar_action :: string

fun validate_status :: "pyval \<Rightarrow> status option" where
  "validate_status (PStr s) =
     (if s = ''OK'' then Some OK else if s = ''ALERT'' then Some ALERT else None)"
| "validate_status v = None"

definition validate_message :: "pylib \<Rightarrow> pyval \<Rightarrow> string option" where
  "validate_message lib v = (case v of PStr s \<Rightarrow> Some s | _ \<Rightarrow> pydantic_str lib v)"

definition AnalysisResponse :: "pylib \<Rightarrow> pyval \<Rightarrow> pyval \<Rightarrow> string \<Rightarrow> exn + analysis_response" where
  "AnalysisResponse lib status_v message_v action_v =
     (case (validate_status status_v, validate_message lib message_v) of
        (Some st, Some msg) \<Rightarrow> Inr \<lparr>ar_status = st, ar_message = msg, ar_action = action_v\<rparr>
      | _ \<Rightarrow> Inl (Exn ValidationError ''AnalysisResponse''))"

text \<open>Lines 294 to 345 on a candidate result.\<close>

definition format_result :: "pylib \<Rightarrow> pyval \<Rightarrow> exn + analysis_response" where
  "format_result lib result =
     (case action_text lib result of
        Inl e \<Rightarrow> Inl e
      | Inr action_value \<Rightarrow>
          (case dict_get result ''status'' (PStr ''OK'') of
             Inl e \<Rightarrow> Inl e
           | Inr status_v \<Rightarrow>
               (case dict_get result ''message'' (PStr ''Analysis completed'') of
                  Inl e \<Rightarrow> Inl e
                | Inr message_v \<Rightarrow>
                    AnalysisResponse lib status_v message_v (clean_action lib action_value))))"

text \<open>The whole of lines 268 to 345: from the raw text to the response.\<close>

definition normalize_response :: "pylib \<Rightarrow> string \<Rightarrow> (exn + analysis_response) \<times> log_record list" where
  "normalize_response lib response =
     (case decode_response lib response of
        (Inl e, lg) \<Rightarrow> (Inl e, lg)
      | (Inr result, lg) \<Rightarrow> (format_result lib result, lg))"

section \<open>Pipeline (app/agent.py)\<close>

record sensor_data =
  sd_humidity :: real
  sd_light :: real
  sd_temperature :: real
  sd_plant_id :: string
  sd_plant_type :: string

text \<open>
  \<open>State.metadata["history"]\<close> is the result of the history node, or the dictionary
  \<open>{"has_history": False, "error": str(e)}\<close> written by the handler of the pipeline.
\<close>

datatype history_meta = HistoryResult history_result | HistoryFailed string

record state =
  s_humidity :: real
  s_light :: real
  s_temperature :: real
  s_plant_id :: string
  s_plant_type :: string
  s_comparisons :: comparisons
  s_history :: "history_meta option"

definition create_state :: "sensor_data \<Rightarrow> state" where
  "create_state sd =
     \<lparr>s_humidity = sd_humidity sd, s_light = sd_light sd, s_temperature = sd_temperature sd,
      s_plant_id = sd_plant_id sd, s_plant_type = sd_plant_type sd,
      s_comparisons = [], s_history = None\<rparr>"

text \<open>\<open>comparisons[key] = value\<close> on the dictionary kept as the list of its items.\<close>

fun dict_set :: "comparisons \<Rightarrow> string \<Rightarrow> verdict \<Rightarrow> comparisons" where
  "dict_set [] k v = [(k, v)]"
| "dict_set ((k', v') # d) k v = (if k' = k then (k, v) # d else (k', v') # dict_set d k v)"

text \<open>
  Lines 164 to 175: the history node is called with the identifier of the plant and the
  limit 10; an exception it raises is logged and replaced by a failed history.
\<close>

definition run_history :: "database \<Rightarrow> state \<Rightarrow> state \<times> log_record list" where
  "run_history db st =
     (case history db (s_plant_id st) 10 of
        Inr history_result \<Rightarrow> (st\<lparr>s_history := Some (HistoryResult history_result)\<rparr>, [])
      | Inl e \<Rightarrow>
          (st\<lparr>s_history := Some (HistoryFailed (exn_str e))\<rparr>,
           [LogError (''Error in history node: '' @ exn_str e)]))"

text \<open>
  The prompt is an f-string; it is kept as the data it renders.  A line of the trends
  block reads \<open>direction\<close>, \<open>change\<close> and \<open>average_historical\<close> of the trend.
\<close>

record trend_line =
  tl_direction :: direction
  tl_change :: real
  tl_average :: real

record history_context =
  hc_total_analyses :: nat
  hc_time_span_days :: int
  hc_alert_count :: nat
  hc_alert_percentage :: real
  hc_trends :: "(string \<times> trend_line) list"
  hc_last_alert :: "int option"
  hc_recent_values :: "recent list"

record prompt =
  pr_plant_id :: string
  pr_plant_type :: string
  pr_humidity :: real
  pr_light :: real
  pr_temperature :: real
  pr_soil_moisture_result :: "status \<times> message"
  pr_temperature_result :: "status \<times> message"
  pr_light_result :: "status \<times> message"
  pr_detailed :: "comparisons option"
  pr_history :: "history_context option"

definition key_error :: "string \<Rightarrow> exn" where
  "key_error k = Exn KeyError ([CHR 0x27] @ k @ [CHR 0x27])"

definition comparison_result :: "comparisons \<Rightarrow> string \<Rightarrow> exn + status \<times> message" where
  "comparison_result comps k =
     (case map_of comps k of
        None \<Rightarrow> Inl (key_error k)
      | Some v \<Rightarrow> Inr (v_status v, v_message v))"

definition trend_prompt_line :: "(string \<times> trend) list \<Rightarrow> string \<Rightarrow> exn + (string \<times> trend_line) list" where
  "trend_prompt_line trs name =
     (case map_of trs name of
        None \<Rightarrow> Inr []
      | Some t \<Rightarrow>
          (case average_historical t of
             None \<Rightarrow> Inl (key_error ''average_historical'')
           | Some avg \<Rightarrow>
               Inr [(name, \<lparr>tl_direction = direction t, tl_change = change t, tl_average = avg\<rparr>)]))"

definition trends_block :: "(string \<times> trend) list \<Rightarrow> exn + (string \<times> trend_line) list" where
  "trends_block trs =
     (if trs = [] then Inr []
      else
        (case trend_prompt_line trs ''humidity'' of
           Inl e \<Rightarrow> Inl e
         | Inr h \<Rightarrow>
             (case trend_prompt_line trs ''light'' of
                Inl e \<Rightarrow> Inl e
              | Inr l \<Rightarrow>
                  (case trend_prompt_line trs ''temperature'' of
                     Inl e \<Rightarrow> Inl e
                   | Inr t \<Rightarrow> Inr (h @ l @ t)))))"

definition history_block :: "history_meta option \<Rightarrow> exn + history_context option" where
  "history_block meta =
     (case meta of
        Some (HistoryResult history_data) \<Rightarrow>
          (if has_history history_data then
             (case summary history_data of
                NoData n msg \<Rightarrow> Inl (key_error ''time_span_days'')
              | Stats s \<Rightarrow>
                  (case trends_block (trends history_data) of
                     Inl e \<Rightarrow> Inl e
                   | Inr lines \<Rightarrow>
                       Inr (Some
                         \<lparr>hc_total_analyses = total_analyses s,
                          hc_time_span_days = time_span_days s,
                          hc_alert_count = alert_count s,
                          hc_alert_percentage = alert_percentage s,
                          hc_trends = lines,
                          hc_last_alert = last_alert_date s,
                          hc_recent_values =
                            (if recent_analyses history_data \<noteq> []
                                \<and> length (recent_analyses history_data) > 1
                             then take 5 (recent_analyses history_data) else [])\<rparr>)))
           else Inr None)
      | _ \<Rightarrow> Inr None)"

text \<open>Lines 177 to 253.\<close>

definition build_prompt :: "state \<Rightarrow> exn + prompt" where
  "build_prompt st =
     (case comparison_result (s_comparisons st) ''soil_moisture'' of
        Inl e \<Rightarrow> Inl e
      | Inr soil \<Rightarrow>
     (case comparison_result (s_comparisons st) ''temperature'' of
        Inl e \<Rightarrow> Inl e
      | Inr temp \<Rightarrow>
     (case comparison_result (s_comparisons st) ''light'' of
        Inl e \<Rightarrow> Inl e
      | Inr lght \<Rightarrow>
     (case history_block (s_history st) of
        Inl e \<Rightarrow> Inl e
      | Inr hist \<Rightarrow>
          Inr \<lparr>pr_plant_id = s_plant_id st, pr_plant_type = s_plant_type st,
               pr_humidity = s_humidity st, pr_light = s_light st,
               pr_temperature = s_temperature st,
               pr_soil_moisture_result = soil, pr_temperature_result = temp,
               pr_light_result = lght,
               pr_detailed = (if s_comparisons st \<noteq> [] then Some (s_comparisons st) else None),
               pr_history = hist\<rparr>))))"

text \<open>
  What a run is given besides the reading: the agent (\<open>None\<close> when its creation failed
  at load time), the catalog file, the library and the clock.  The agent answers a
  prompt with a text or raises.
\<close>

record env =
  e_agent :: "(prompt \<Rightarrow> exn + string) option"
  e_plants :: plants_file
  e_lib :: pylib
  e_utcnow :: int

text \<open>Lines 347 to 367: the write is attempted, an exception is logged and dropped.\<close>

definition persist ::
  "env \<Rightarrow> database \<Rightarrow> state \<Rightarrow> analysis_response \<Rightarrow> int option \<Rightarrow> database \<times> log_record list" where
  "persist ev db st resp test_timestamp =
     (case save_analysis db (e_utcnow ev) (s_plant_id st) (s_humidity st) (s_light st)
             (s_temperature st) (s_comparisons st) (status_str (ar_status resp))
             (ar_message resp) (ar_action resp) test_timestamp of
        (Inr saved, db') \<Rightarrow> (db', [])
      | (Inl e, db') \<Rightarrow>
          (db', [LogError (''Failed to save analysis to database: '' @ exn_str e)]))"

text \<open>
  The three comparison nodes in the order of the source; the first that raises is
  logged and ends the run.
\<close>

definition run_nodes :: "env \<Rightarrow> state \<Rightarrow> (exn + state) \<times> log_record list" where
  "run_nodes ev st =
     (case soil_moisture (e_plants ev) (s_plant_type st) (s_humidity st) of
        Inl e \<Rightarrow> (Inl e, [LogError (''Error in soil_moisture node: '' @ exn_str e)])
      | Inr soil_moisture_result \<Rightarrow>
     (let st1 = st\<lparr>s_comparisons := dict_set (s_comparisons st) ''soil_moisture'' soil_moisture_result\<rparr>
      in case temperature (e_plants ev) (s_plant_type st1) (s_temperature st1) of
        Inl e \<Rightarrow> (Inl e, [LogError (''Error in temperature node: '' @ exn_str e)])
      | Inr temperature_result \<Rightarrow>
     (let st2 = st1\<lparr>s_comparisons := dict_set (s_comparisons st1) ''temperature'' temperature_result\<rparr>
      in case light (e_plants ev) (s_plant_type st2) (s_light st2) of
        Inl e \<Rightarrow> (Inl e, [LogError (''Error in light node: '' @ exn_str e)])
      | Inr light_result \<Rightarrow>
          (Inr (st2\<lparr>s_comparisons := dict_set (s_comparisons st2) ''light'' light_result\<rparr>), []))))"

text \<open>
  \<open>process_with_pipeline\<close>: the result returned or the exception raised, the store
  after the run, and the errors and warnings logged by the module.
\<close>

definition process_with_pipeline ::
  "env \<Rightarrow> database \<Rightarrow> sensor_data \<Rightarrow> int option
     \<Rightarrow> (exn + analysis_response) \<times> database \<times> log_record list" where
  "process_with_pipeline ev db sd test_timestamp =
     (case e_agent ev of
        None \<Rightarrow>
          (Inl (Exn RuntimeError ''LangChain agent is not initialized. Check server logs.''),
           db, [])
      | Some agent \<Rightarrow>
     (case run_nodes ev (create_state sd) of
        (Inl e, lg1) \<Rightarrow> (Inl e, db, lg1)
      | (Inr st3, lg1) \<Rightarrow>
     (case run_history db st3 of (st, lg2) \<Rightarrow>
     (case build_prompt st of
        Inl e \<Rightarrow> (Inl e, db, lg1 @ lg2)
      | Inr prompt \<Rightarrow>
     (case agent prompt of
        Inl e \<Rightarrow> (Inl e, db, lg1 @ lg2 @ [LogError (''Error invoking agent/LLM: '' @ exn_str e)])
      | Inr response \<Rightarrow>
     (case normalize_response (e_lib ev) response of
        (Inl e, lg3) \<Rightarrow> (Inl e, db, lg1 @ lg2 @ lg3)
      | (Inr analysis_response, lg3) \<Rightarrow>
     (case persist ev db st analysis_response test_timestamp of
        (db', lg4) \<Rightarrow> (Inr analysis_response, db', lg1 @ lg2 @ lg3 @ lg4))))))))"

text \<open>The trend stored for a metric in the history of a state, if any.\<close>

definition state_trend :: "state \<Rightarrow> string \<Rightarrow> trend option" where
  "state_trend st metric =
     (case s_history st of
        Some (HistoryResult h) \<Rightarrow> map_of (trends h) metric
      | _ \<Rightarrow> None)"

section \<open>Candidate results on which the response is built\<close>

text \<open>
  A list of actions can be turned into a sentence when it has fewer than two items or
  when its items other than the last are strings.  A candidate result is acceptable when
  it is a dictionary whose \<open>status\<close>, if present, is \<open>"OK"\<close> or \<open>"ALERT"\<close>, whose
  \<open>message\<close>, if present, is a string or a value pydantic converts to one, and whose
  \<open>action\<close>, if present, is such a list or is not a list.
\<close>

fun is_str :: "pyval \<Rightarrow> bool" where
  "is_str (PStr s) = True"
| "is_str v = False"

definition joinable :: "pyval \<Rightarrow> bool" where
  "joinable v = (case v of PList xs \<Rightarrow> length xs < 2 \<or> list_all is_str (butlast xs) | _ \<Rightarrow> True)"

definition acceptable :: "pylib \<Rightarrow> pyval \<Rightarrow> bool" where
  "acceptable lib result =
     (case result of
        PDict kvs \<Rightarrow>
          (case map_of kvs ''status'' of
             None \<Rightarrow> True
           | Some v \<Rightarrow> v = PStr ''OK'' \<or> v = PStr ''ALERT'')
        \<and> (case map_of kvs ''message'' of
             None \<Rightarrow> True
           | Some v \<Rightarrow> is_str v \<or> pydantic_str lib v \<noteq> None)
        \<and> (case map_of kvs ''action'' of
             None \<Rightarrow> True
           | Some v \<Rightarrow> joinable v)
      | _ \<Rightarrow> False)"

section \<open>Sample inputs\<close>

text \<open>A catalog entry in the shape of the entries of \<open>plants_ideal.json\<close>.\<close>

definition sample_plant :: plant where
  "sample_plant =
     \<lparr>p_id = ''basil'', p_name = ''Basilic'', ic_soil_moisture = 60,
      ic_light = \<lparr>b_min = 1000, b_max = 2000, b_ideal = 1100\<rparr>,
      ic_temperature = \<lparr>b_min = 18, b_max = 26, b_ideal = 22\<rparr>,
      tol_soil_moisture = 5, tol_light = 200, tol_temperature = 2\<rparr>"

text \<open>
  A store with three back-dated analyses of plant \<open>basil-001\<close> (humidity 70, 65, 55 on
  three successive days) and one analysis of plant \<open>mint-007\<close>, and the reading that
  follows them for \<open>basil-001\<close>.
\<close>

definition sample_row :: "nat \<Rightarrow> string \<Rightarrow> int \<Rightarrow> real \<Rightarrow> string \<Rightarrow> plant_analysis" where
  "sample_row i pid day h st =
     \<lparr>pa_id = i, pa_plant_id = pid, pa_timestamp = day * one_day, pa_humidity = h,
      pa_light = 1200, pa_temperature = 22, pa_comparisons = [], pa_status = st,
      pa_message = ''m'', pa_action = ''a''\<rparr>"

definition sample_db :: database where
  "sample_db = \<lparr>initialized = True, read_fault = None, write_fault = None,
      rows = [sample_row 1 ''basil-001'' 1 70 ''OK'', sample_row 2 ''mint-007'' 1 40 ''ALERT'',
              sample_row 3 ''basil-001'' 2 65 ''OK'', sample_row 4 ''basil-001'' 3 55 ''ALERT'']\<rparr>"

definition sample_reading :: sensor_data where
  "sample_reading = \<lparr>sd_humidity = 50, sd_light = 1200, sd_temperature = 22,
       sd_plant_id = ''basil-001'', sd_plant_type = ''basil''\<rparr>"

text \<open>
  Raw texts of the reasoning engine, and a library that decodes them: \<open>sample_loads\<close>
  is \<open>json.loads\<close> on the JSON texts below and raises \<open>JSONDecodeError\<close> elsewhere,
  \<open>sample_literal_eval\<close> is \<open>ast.literal_eval\<close> on the list text and raises elsewhere.
\<close>

definition raw_plain :: string where
  "raw_plain = ''The plant looks fine.''"

definition raw_two_actions :: string where
  \<open>raw_two_actions = ''Answer: {"status": "ALERT", "message": "Too dry", "action": ["water", "light"]} Done.''\<close>

definition raw_two_numbers :: string where
  \<open>raw_two_numbers = ''{"action": [1, 2]}''\<close>

definition raw_unknown_status :: string where
  \<open>raw_unknown_status = ''{"status": "WARNING", "message": "Soil is drying", "action": "Water the plant"}''\<close>

definition raw_stringified :: string where
  \<open>raw_stringified = ''{"action": "['a', 'b']"}''\<close>

definition raw_quoted :: string where
  \<open>raw_quoted = ''{"action": "'' @ [CHR 0x5C, CHR 0x22] @ ''Water now'' @ [CHR 0x5C, CHR 0x22] @ ''"}''\<close>

definition list_text :: string where
  "list_text = ''['' @ [CHR 0x27] @ ''a'' @ [CHR 0x27] @ '', '' @ [CHR 0x27] @ ''b'' @ [CHR 0x27] @ '']''"

definition sample_loads :: "string \<Rightarrow> exn + pyval" where
  "sample_loads s =
     (if s = json_str raw_two_actions then
        Inr (PDict [(''status'', PStr ''ALERT''), (''message'', PStr ''Too dry''),
                    (''action'', PList [PStr ''water'', PStr ''light''])])
      else if s = raw_two_numbers then
        Inr (PDict [(''action'', PList [PInt 1, PInt 2])])
      else if s = raw_unknown_status then
        Inr (PDict [(''status'', PStr ''WARNING''), (''message'', PStr ''Soil is drying''),
                    (''action'', PStr ''Water the plant'')])
      else if s = raw_stringified then
        Inr (PDict [(''action'', PStr list_text)])
      else if s = raw_quoted then
        Inr (PDict [(''action'', PStr ([CHR 0x22] @ ''Water now'' @ [CHR 0x22]))])
      else Inl (Exn JSONDecodeError ''Expecting value''))"

definition sample_literal_eval :: "string \<Rightarrow> exn + pyval" where
  "sample_literal_eval s =
     (if s = list_text
      then Inr (PList [PStr ''a'', PStr ''b''])
      else Inl (Exn ValueError ''malformed node or string''))"

definition sample_lib :: pylib where
  "sample_lib =
     \<lparr>json_loads = sample_loads, literal_eval = sample_literal_eval,
      builtin_str = (\<lambda>v. case v of PInt i \<Rightarrow> (if 0 \<le> i then show_nat (nat i) else ''-'' @ show_nat (nat (- i)))
                             | PNone \<Rightarrow> ''None'' | _ \<Rightarrow> ''<object>''),
      pydantic_str = (\<lambda>v. None)\<rparr>"

text \<open>A run whose agent always answers \<open>raw_two_actions\<close>, on the fourth day.\<close>

definition sample_env :: env where
  "sample_env = \<lparr>e_agent = Some (\<lambda>p. Inr raw_two_actions), e_plants = Inr [sample_plant],
                  e_lib = sample_lib, e_utcnow = 4 * one_day\<rparr>"

section \<open>Properties of the comparators\<close>

lemma find_plant_present:
  "plant_type \<in> p_id ` set plants \<Longrightarrow>
     \<exists>plant \<in> set plants. p_id plant = plant_type \<and> find_plant plants plant_type = Inr plant"
  by (induction plants) auto

text \<open>
  Claim C2.  For a plant type present in the catalog and any value, \<open>light\<close> and
  \<open>temperature\<close> return a verdict whose status is OK when the value lies in the band
  \<open>[min, max]\<close> or within the tolerance of the ideal point, and ALERT otherwise; the
  difference of the verdict is the value minus the ideal point.  The plant found is the
  entry of the catalog with that identifier.
\<close>

theorem comparators_band_or_tolerance:
  assumes "file = Inr plants" and "plant_type \<in> p_id ` set plants"
  shows "\<exists>plant \<in> set plants. \<exists>lv tv.
           p_id plant = plant_type
         \<and> light file plant_type val = Inr lv
         \<and> v_status lv =
             (if (b_min (ic_light plant) \<le> val \<and> val \<le> b_max (ic_light plant))
                 \<or> \<bar>val - b_ideal (ic_light plant)\<bar> \<le> tol_light plant then OK else ALERT)
         \<and> difference lv = val - b_ideal (ic_light plant)
         \<and> temperature file plant_type val = Inr tv
         \<and> v_status tv =
             (if (b_min (ic_temperature plant) \<le> val \<and> val \<le> b_max (ic_temperature plant))
                 \<or> \<bar>val - b_ideal (ic_temperature plant)\<bar> \<le> tol_temperature plant
              then OK else ALERT)
         \<and> difference tv = val - b_ideal (ic_temperature plant)"
proof -
  from find_plant_present [OF assms(2)] obtain plant where
    p: "plant \<in> set plants" "p_id plant = plant_type" "find_plant plants plant_type = Inr plant"
    by blast
  have l: "load_plant_data file plant_type = Inr plant"
    using assms(1) p(3) by (simp add: load_plant_data_def)
  show ?thesis
    using p(1,2) l by (intro bexI [of _ plant]) (auto simp: light_def temperature_def Let_def)
qed

text \<open>
  The value 950 is below the band of the sample entry for light and within tolerance of
  its ideal point; it is far above the band for temperature.
\<close>

theorem comparators_band_or_tolerance_witness:
  "''basil'' \<in> p_id ` set [sample_plant]
   \<and> (\<exists>lv tv. light (Inr [sample_plant]) ''basil'' 950 = Inr lv \<and> v_status lv = OK
          \<and> difference lv = - 150
          \<and> temperature (Inr [sample_plant]) ''basil'' 950 = Inr tv \<and> v_status tv = ALERT
          \<and> difference tv = 928)"
  using comparators_band_or_tolerance [of "Inr [sample_plant]" "[sample_plant]" "''basil''" 950]
  by (simp add: sample_plant_def)

section \<open>Properties of the trend analyzer\<close>

text \<open>
  Claim C4.  The percentage is computed under the guard \<open>avg_historical > 0\<close>.  For the
  window \<open>[-10, -10]\<close> and the current value \<open>-5\<close> the mean is \<open>-10\<close>, the change is 5 and
  the quotient \<open>change / mean * 100\<close> is \<open>-50\<close>, yet the percentage returned is 0 and the
  direction is stable.
\<close>

theorem calculate_trend_negative_mean:
  "calculate_trend [- 10, - 10] (- 5) =
     \<lparr>direction = stable, change = 5, change_percent = Some 0,
      average_historical = Some (- 10), period = Analyses 2\<rparr>
   \<and> (- 5 - (- 10)) / (- 10) * 100 = (- 50 :: real)"
  by (simp add: calculate_trend_def py_round_def Let_def)

text \<open>
  For a window of positive mean the change and the percentage are the rounded
  difference and quotient; for every window whose mean is not positive the percentage
  is 0 and the direction is stable.
\<close>

lemma calculate_trend_positive_mean:
  assumes "2 \<le> length vals" and "0 < sum_list vals / real (length vals)"
  shows "change (calculate_trend vals cur) = py_round (cur - sum_list vals / real (length vals)) 2
       \<and> change_percent (calculate_trend vals cur) =
           Some (py_round ((cur - sum_list vals / real (length vals))
                           / (sum_list vals / real (length vals)) * 100) 2)"
  using assms by (auto simp: calculate_trend_def Let_def)

lemma calculate_trend_nonpositive_mean:
  assumes "2 \<le> length vals" and "sum_list vals / real (length vals) \<le> 0"
  shows "change_percent (calculate_trend vals cur) = Some 0
       \<and> direction (calculate_trend vals cur) = stable"
  using assms by (auto simp: calculate_trend_def Let_def py_round_def)

lemma collect_humidity: "c_humidity (collect as c) = c_humidity c @ map pa_humidity as"
  by (induction as arbitrary: c) auto
lemma collect_light: "c_light (collect as c) = c_light c @ map pa_light as"
  by (induction as arbitrary: c) auto
lemma collect_temperature: "c_temperature (collect as c) = c_temperature c @ map pa_temperature as"
  by (induction as arbitrary: c) auto

lemma metric_trend_eq:
  "metric_trend name vals =
     (if 1 < length vals then [(name, calculate_trend (butlast vals) (last vals))] else [])"
  by (auto simp: metric_trend_def Let_def)

lemma analyse_trends:
  "analyses \<noteq> [] \<Longrightarrow>
   trends (analyse analyses) =
     metric_trend ''humidity'' (rev (map pa_humidity analyses))
     @ metric_trend ''light'' (rev (map pa_light analyses))
     @ metric_trend ''temperature'' (rev (map pa_temperature analyses))"
  by (simp add: analyse_def Let_def collect_humidity collect_light collect_temperature)

lemma analyse_empty: "analyse [] = \<lparr>has_history = False, recent_analyses = [], trends = [],
         summary = NoData 0 ''No historical data available''\<rparr>"
  by (simp add: analyse_def)

lemma calculate_trend_computed:
  "direction (calculate_trend vals cur) \<noteq> insufficient_data \<Longrightarrow> 2 \<le> length vals"
  by (auto simp: calculate_trend_def Let_def split: if_splits)

lemma analyse_trend_entry:
  assumes "map_of (trends (analyse analyses)) metric = Some t"
  shows "2 \<le> length analyses \<and> (direction t \<noteq> insufficient_data \<longrightarrow> 3 \<le> length analyses)"
proof (cases "analyses = []")
  case True
  with assms show ?thesis by (simp add: analyse_empty)
next
  case False
  with assms show ?thesis
    by (auto simp: analyse_trends metric_trend_eq split: if_splits
             dest!: calculate_trend_computed)
qed

lemma analyse_short: "length analyses < 2 \<Longrightarrow> trends (analyse analyses) = []"
  by (cases "analyses = []") (simp_all add: analyse_empty analyse_trends metric_trend_eq)

lemma sample_history:
  "history sample_db ''basil-001'' 10 =
    Inr \<lparr>has_history = True,
        recent_analyses =
          [\<lparr>r_timestamp = 259200000000, r_humidity = 55, r_light = 1200,
              r_temperature = 22, r_status = ''ALERT''\<rparr>,
           \<lparr>r_timestamp = 172800000000, r_humidity = 65, r_light = 1200,
              r_temperature = 22, r_status = ''OK''\<rparr>,
           \<lparr>r_timestamp = 86400000000, r_humidity = 70, r_light = 1200,
              r_temperature = 22, r_status = ''OK''\<rparr>],
        trends =
          [(''humidity'',
            \<lparr>direction = decreasing, change = - (25 / 2),
               change_percent = Some (- (463 / 25)),
               average_historical = Some (135 / 2), period = Analyses 2\<rparr>),
           (''light'',
            \<lparr>direction = stable, change = 0,
               change_percent = Some 0, average_historical = Some 1200,
               period = Analyses 2\<rparr>),
           (''temperature'',
            \<lparr>direction = stable, change = 0,
               change_percent = Some 0, average_historical = Some 22,
               period = Analyses 2\<rparr>)],
        summary =
          Stats
           \<lparr>total_analyses = 3, alert_count = 1,
              alert_percentage = 333 / 10,
              last_alert_date = Some 259200000000, time_span_days = 2,
              average_humidity = 6333 / 100, average_light = 1200,
              average_temperature = 22,
              most_recent_date = Some 259200000000\<rparr>\<rparr>"
  by (simp add: history_def history_try_def get_db_def query_recent_def sample_db_def
        sample_row_def one_day_def analyse_def Let_def metric_trend_def calculate_trend_def
        py_round_def mean_or_zero_def)

text \<open>
  Claim C9.  The current reading of a run is not stored yet when the history is
  fetched, so the historical points are the fetched analyses.  A metric has an entry in
  the trends of the history only when at least two analyses were fetched, and it has
  none when fewer than two were fetched.  An entry that is computed, that is, whose
  direction is not \<open>insufficient_data\<close>, needs at least three fetched analyses: two
  besides the newest one.
\<close>

theorem trend_entries_need_two_points:
  assumes "history db plant_id limit = Inr h"
  shows "(\<forall>t. map_of (trends h) metric = Some t \<longrightarrow>
            (\<exists>analyses. query_recent db plant_id limit = Inr analyses \<and> 2 \<le> length analyses
                \<and> (direction t \<noteq> insufficient_data \<longrightarrow> 3 \<le> length analyses)))
       \<and> (\<forall>analyses. query_recent db plant_id limit = Inr analyses \<and> length analyses < 2
            \<longrightarrow> map_of (trends h) metric = None)"
proof (cases "history_try db plant_id limit")
  case (Inl e)
  with assms have "trends h = []" by (auto simp: history_def)
  then show ?thesis by simp
next
  case (Inr r)
  with assms have hr: "h = r" by (simp add: history_def)
  from Inr obtain analyses where
    q: "query_recent db plant_id limit = Inr analyses" "r = analyse analyses"
    by (auto simp: history_try_def get_db_def split: if_splits sum.splits)
  show ?thesis
    using q hr analyse_trend_entry [of analyses metric] analyse_short [of analyses] by auto
qed

theorem trend_entries_need_two_points_witness:
  "\<exists>h t. history sample_db ''basil-001'' 10 = Inr h
     \<and> map_of (trends h) ''humidity'' = Some t \<and> direction t = decreasing
     \<and> (\<exists>analyses. query_recent sample_db ''basil-001'' 10 = Inr analyses \<and> 3 \<le> length analyses)"
  using trend_entries_need_two_points [OF sample_history, of "''humidity''"]
  by (auto simp: sample_history)

lemma query_single:
  assumes "read_fault db = None"
      and "length (filter (\<lambda>a. pa_plant_id a = plant_id) (rows db)) = 1" and "0 < limit"
  shows "\<exists>a. query_recent db plant_id limit = Inr [a]"
proof -
  from assms(2) obtain a where a: "filter (\<lambda>a. pa_plant_id a = plant_id) (rows db) = [a]"
    by (cases "filter (\<lambda>a. pa_plant_id a = plant_id) (rows db)") auto
  from assms(3) obtain k where "limit = Suc k" by (cases limit) auto
  with a assms(1) show ?thesis by (simp add: query_recent_def)
qed

text \<open>
  Claim C10.  When the store is available and holds exactly one analysis of the plant,
  the history has \<open>has_history\<close> true, no trend entry, a time span of one day and a
  total of one analysis.
\<close>

theorem single_record_history:
  assumes "initialized db" and "read_fault db = None"
      and "length (filter (\<lambda>a. pa_plant_id a = plant_id) (rows db)) = 1" and "0 < limit"
  shows "\<exists>h s. history db plant_id limit = Inr h \<and> has_history h \<and> trends h = []
           \<and> summary h = Stats s \<and> time_span_days s = 1 \<and> total_analyses s = 1"
proof -
  from query_single [OF assms(2,3,4)] obtain a where
    "query_recent db plant_id limit = Inr [a]" ..
  with assms(1) have "history db plant_id limit = Inr (analyse [a])"
    by (simp add: history_def history_try_def get_db_def)
  then show ?thesis
    by (simp add: analyse_def Let_def metric_trend_def)
qed

theorem single_record_history_witness:
  "\<exists>h s. history sample_db ''mint-007'' 10 = Inr h \<and> has_history h \<and> trends h = []
           \<and> summary h = Stats s \<and> time_span_days s = 1 \<and> total_analyses s = 1"
  using single_record_history [of sample_db "''mint-007''" 10]
  by (simp add: sample_db_def sample_row_def)

text \<open>
  Claim C5.  \<open>history\<close> always returns a result, and the pipeline step that calls it
  stores this result without logging an error.  With no analysis of the plant in an
  available store the result is the empty history with the text "No historical data
  available"; when opening the session or the query raises, the result is the empty
  history whose text embeds the text of the exception.  A fault of the store on reads
  is such an exception.
\<close>

theorem history_never_raises:
  "(\<exists>h. history db plant_id limit = Inr h)
   \<and> (\<exists>h. history db (s_plant_id st) 10 = Inr h
        \<and> run_history db st = (st\<lparr>s_history := Some (HistoryResult h)\<rparr>, []))
   \<and> (initialized db \<and> read_fault db = None
        \<and> filter (\<lambda>a. pa_plant_id a = plant_id) (rows db) = []
      \<longrightarrow> history db plant_id limit =
            Inr \<lparr>has_history = False, recent_analyses = [], trends = [],
                 summary = NoData 0 ''No historical data available''\<rparr>)
   \<and> (\<forall>e. history_try db plant_id limit = Inl e
      \<longrightarrow> history db plant_id limit =
            Inr \<lparr>has_history = False, recent_analyses = [], trends = [],
                 summary = NoData 0 (''Error retrieving history: '' @ exn_str e)\<rparr>)
   \<and> (\<forall>e. read_fault db = Some e \<and> initialized db \<longrightarrow> history_try db plant_id limit = Inl e)"
  by (auto simp: history_def history_try_def get_db_def query_recent_def run_history_def analyse_empty
           split: sum.splits)

theorem history_never_raises_witness:
  "history (sample_db\<lparr>read_fault := Some (Exn OtherException ''store unavailable'')\<rparr>)
       ''basil-001'' 10 =
     Inr \<lparr>has_history = False, recent_analyses = [], trends = [],
          summary = NoData 0 ''Error retrieving history: store unavailable''\<rparr>
   \<and> history sample_db ''rose-001'' 10 =
     Inr \<lparr>has_history = False, recent_analyses = [], trends = [],
          summary = NoData 0 ''No historical data available''\<rparr>"
  using history_never_raises
          [of "sample_db\<lparr>read_fault := Some (Exn OtherException ''store unavailable'')\<rparr>"
              "''basil-001''" 10 "create_state sample_reading"]
        history_never_raises [of sample_db "''rose-001''" 10 "create_state sample_reading"]
  by (simp add: sample_db_def sample_row_def)

text \<open>
  Claim C3, as amended.  \<open>history\<close> receives the identifier of the plant and a limit,
  not the reading of the run.  When at least two analyses are fetched, the entry of each
  metric is \<open>calculate_trend\<close> applied to the values of the older fetched analyses, in
  chronological order, and to the value of the newest fetched analysis as the current
  value.  Two readings of the same plant give the same history in the state.
\<close>

theorem history_trend_of_newest_record:
  assumes "initialized db" and "query_recent db plant_id limit = Inr (newest # older)"
      and "older \<noteq> []"
  shows "\<exists>h. history db plant_id limit = Inr h
           \<and> map_of (trends h) ''humidity'' =
               Some (calculate_trend (rev (map pa_humidity older)) (pa_humidity newest))
           \<and> map_of (trends h) ''light'' =
               Some (calculate_trend (rev (map pa_light older)) (pa_light newest))
           \<and> map_of (trends h) ''temperature'' =
               Some (calculate_trend (rev (map pa_temperature older)) (pa_temperature newest))
           \<and> (\<forall>sd sd'. sd_plant_id sd = plant_id \<and> sd_plant_id sd' = plant_id \<longrightarrow>
                  s_history (fst (run_history db (create_state sd)))
                  = s_history (fst (run_history db (create_state sd'))))"
proof -
  have h: "history db plant_id limit = Inr (analyse (newest # older))"
    using assms(1,2) by (simp add: history_def history_try_def get_db_def)
  have t: "trends (analyse (newest # older)) =
      [(''humidity'', calculate_trend (rev (map pa_humidity older)) (pa_humidity newest)),
       (''light'', calculate_trend (rev (map pa_light older)) (pa_light newest)),
       (''temperature'', calculate_trend (rev (map pa_temperature older)) (pa_temperature newest))]"
    using assms(3) by (simp add: analyse_trends metric_trend_eq)
  have r: "\<And>sd. s_history (fst (run_history db (create_state sd)))
        = (case history db (sd_plant_id sd) 10 of
             Inr x \<Rightarrow> Some (HistoryResult x) | Inl e \<Rightarrow> Some (HistoryFailed (exn_str e)))"
    by (simp add: run_history_def create_state_def split: sum.splits)
  show ?thesis
    using h t r by simp
qed

theorem history_trend_of_newest_record_witness:
  "initialized sample_db
   \<and> query_recent sample_db ''basil-001'' 10 =
       Inr [sample_row 4 ''basil-001'' 3 55 ''ALERT'',
            sample_row 3 ''basil-001'' 2 65 ''OK'', sample_row 1 ''basil-001'' 1 70 ''OK'']
   \<and> state_trend (fst (run_history sample_db (create_state sample_reading))) ''humidity''
       = Some (calculate_trend [70, 65] 55)"
proof -
  have i: "initialized sample_db" by (simp add: sample_db_def)
  have q: "query_recent sample_db ''basil-001'' 10 =
       Inr (sample_row 4 ''basil-001'' 3 55 ''ALERT'' #
            [sample_row 3 ''basil-001'' 2 65 ''OK'', sample_row 1 ''basil-001'' 1 70 ''OK''])"
    by (simp add: query_recent_def sample_db_def sample_row_def one_day_def)
  from history_trend_of_newest_record [OF i q] obtain h where
    h: "history sample_db ''basil-001'' 10 = Inr h"
       "map_of (trends h) ''humidity'' =
          Some (calculate_trend
                  (rev (map pa_humidity [sample_row 3 ''basil-001'' 2 65 ''OK'',
                                         sample_row 1 ''basil-001'' 1 70 ''OK'']))
                  (pa_humidity (sample_row 4 ''basil-001'' 3 55 ''ALERT'')))"
    by blast
  have "state_trend (fst (run_history sample_db (create_state sample_reading))) ''humidity''
       = map_of (trends h) ''humidity''"
    using h(1) by (simp add: state_trend_def run_history_def create_state_def sample_reading_def)
  with h(2) i q show ?thesis by (simp add: sample_row_def)
qed

text \<open>
  Claim C3 as stated fails.  With humidity 70, 65, 55 stored and a reading of humidity
  50, the trend of humidity compares 55 with the mean 67.5 of 70 and 65; it is not the
  trend of 50 against the three stored values.
\<close>

theorem history_trend_counterexample:
  "state_trend (fst (run_history sample_db (create_state sample_reading))) ''humidity''
     = Some \<lparr>direction = decreasing, change = - (25 / 2), change_percent = Some (- (463 / 25)),
             average_historical = Some (135 / 2), period = Analyses 2\<rparr>
   \<and> state_trend (fst (run_history sample_db (create_state sample_reading))) ''humidity''
     \<noteq> Some (calculate_trend [70, 65, 55] (sd_humidity sample_reading))"
  by (simp add: state_trend_def run_history_def create_state_def sample_reading_def sample_history
        calculate_trend_def Let_def py_round_def)

section \<open>Properties of the response normalisation\<close>

lemma join_items_strings: "join_items i (map PStr ss) = Inr ss"
  by (induction ss arbitrary: i) auto

lemma join_items_all_str: "list_all is_str xs \<Longrightarrow> \<exists>ss. join_items i xs = Inr ss"
proof (induction xs arbitrary: i)
  case Nil
  then show ?case by simp
next
  case (Cons x xs)
  then obtain s where "x = PStr s" by (cases x) auto
  moreover from Cons obtain ss where "join_items (Suc i) xs = Inr ss" by fastforce
  ultimately show ?case by simp
qed

lemma list_sentence_ok:
  assumes "length xs < 2 \<or> list_all is_str (butlast xs)"
  shows "\<exists>s. list_sentence lib xs = Inr s"
proof (cases "length xs < 2")
  case True
  then have "xs = [] \<or> length xs = 1" by (cases xs) auto
  then show ?thesis by (auto simp: list_sentence_def)
next
  case False
  with assms obtain ss where "join_items 0 (butlast xs) = Inr ss"
    using join_items_all_str by blast
  with False show ?thesis by (simp add: list_sentence_def py_join_def)
qed

lemma decode_fallback:
  assumes "CHR ''{'' \<notin> set response \<or> CHR ''}'' \<notin> set response
           \<or> (\<exists>e. json_loads lib (json_str response) = Inl e \<and> exn_kind e = JSONDecodeError)"
  shows "fst (decode_response lib response) = Inr (fallback_result response)"
  using assms by (auto simp: decode_response_def)

lemma clean_action_aucune: "clean_action lib ''aucune'' = ''aucune''"
  by (simp add: clean_action_def py_strip_def py_isspace_def startswith_def endswith_def)

lemma format_fallback:
  "format_result lib (fallback_result response) =
     Inr \<lparr>ar_status = OK, ar_message = response, ar_action = ''aucune''\<rparr>"
  by (simp add: format_result_def fallback_result_def action_text_def clean_action_aucune
        AnalysisResponse_def validate_message_def)

lemma normalize_format:
  "fst (decode_response lib response) = Inr result \<Longrightarrow>
   fst (normalize_response lib response) = format_result lib result"
  by (cases "decode_response lib response") (auto simp: normalize_response_def)

text \<open>
  Claim C7, as amended.  When the raw text has no \<open>{\<close> or no \<open>}\<close>, or when decoding
  the text between the first \<open>{\<close> and the last \<open>}\<close> raises \<open>JSONDecodeError\<close>, the
  candidate result has status \<open>"OK"\<close>, the raw text as its message and the sentinel
  \<open>"aucune"\<close> as its action; the response built from it has these three values.
\<close>

theorem fallback_candidate:
  assumes "CHR ''{'' \<notin> set response \<or> CHR ''}'' \<notin> set response
           \<or> (\<exists>e. json_loads lib (json_str response) = Inl e \<and> exn_kind e = JSONDecodeError)"
  shows "fst (decode_response lib response) =
           Inr (PDict [(''status'', PStr ''OK''), (''message'', PStr response),
                        (''action'', PStr ''aucune'')])
       \<and> fst (normalize_response lib response) =
           Inr \<lparr>ar_status = OK, ar_message = response, ar_action = ''aucune''\<rparr>"
proof -
  have d: "fst (decode_response lib response) = Inr (fallback_result response)"
    using assms by (rule decode_fallback)
  from normalize_format [OF d] have "fst (normalize_response lib response) =
      Inr \<lparr>ar_status = OK, ar_message = response, ar_action = ''aucune''\<rparr>"
    by (simp add: format_fallback)
  with d show ?thesis by (simp add: fallback_result_def)
qed

theorem fallback_candidate_witness:
  "CHR ''{'' \<notin> set raw_plain
   \<and> fst (normalize_response sample_lib raw_plain) =
       Inr \<lparr>ar_status = OK, ar_message = ''The plant looks fine.'', ar_action = ''aucune''\<rparr>
   \<and> exn_kind (Exn JSONDecodeError ''Expecting value'') = JSONDecodeError
   \<and> json_loads sample_lib (json_str ''} {'') = Inl (Exn JSONDecodeError ''Expecting value'')
   \<and> fst (normalize_response sample_lib ''} {'') =
       Inr \<lparr>ar_status = OK, ar_message = ''} {'', ar_action = ''aucune''\<rparr>"
proof -
  have a: "CHR ''{'' \<notin> set raw_plain" by (simp add: raw_plain_def)
  have b: "json_loads sample_lib (json_str ''} {'') = Inl (Exn JSONDecodeError ''Expecting value'')"
    by (simp add: sample_lib_def sample_loads_def json_str_def py_find_def py_rfind_def
          py_slice_def raw_two_actions_def raw_two_numbers_def raw_unknown_status_def
          raw_stringified_def raw_quoted_def)
  from a fallback_candidate [of raw_plain sample_lib]
  have 1: "fst (normalize_response sample_lib raw_plain) =
       Inr \<lparr>ar_status = OK, ar_message = raw_plain, ar_action = ''aucune''\<rparr>" by blast
  from b fallback_candidate [of "''} {''" sample_lib]
  have 2: "fst (normalize_response sample_lib ''} {'') =
       Inr \<lparr>ar_status = OK, ar_message = ''} {'', ar_action = ''aucune''\<rparr>" by simp
  from a b 1 2 show ?thesis by (simp add: raw_plain_def)
qed

text \<open>
  Claim C7 as stated fails: the action of the candidate is not the string \<open>"none"\<close>.
\<close>

theorem fallback_action_counterexample:
  "fst (decode_response sample_lib raw_plain) \<noteq>
     Inr (PDict [(''status'', PStr ''OK''), (''message'', PStr raw_plain),
                 (''action'', PStr ''none'')])"
  by (simp add: decode_response_def raw_plain_def fallback_result_def)

text \<open>
  Claim C8.  On a decoded action that is a list of strings, the conversion gives
  "No action needed" for the empty list, "Take action: x" for the list of one item x,
  and for two items or more "Take multiple actions: " followed by the items but the
  last joined by ", ", then " and " and the last item.
\<close>

theorem action_list_coercion:
  "(map_of kvs ''action'' = Some (PList []) \<longrightarrow>
      action_text lib (PDict kvs) = Inr ''No action needed'')
   \<and> (map_of kvs ''action'' = Some (PList [PStr x]) \<longrightarrow>
      action_text lib (PDict kvs) = Inr (''Take action: '' @ x))
   \<and> (map_of kvs ''action'' = Some (PList (map PStr ss)) \<and> 2 \<le> length ss \<longrightarrow>
      action_text lib (PDict kvs) =
        Inr (''Take multiple actions: '' @ intercalate '', '' (butlast ss) @ '' and '' @ last ss))"
proof -
  have "2 \<le> length ss \<Longrightarrow>
        list_sentence lib (map PStr ss) =
          Inr (''Take multiple actions: '' @ intercalate '', '' (butlast ss) @ '' and '' @ last ss)"
  proof -
    assume l: "2 \<le> length ss"
    then have ne: "ss \<noteq> []" by auto
    have "py_join '', '' (butlast (map PStr ss)) = Inr (intercalate '', '' (butlast ss))"
      by (simp add: py_join_def map_butlast [symmetric] join_items_strings)
    with l ne show ?thesis
      by (simp add: list_sentence_def last_map py_format_def)
  qed
  then show ?thesis
    by (auto simp: action_text_def list_sentence_def py_format_def)
qed

theorem action_list_coercion_witness:
  "action_text sample_lib (PDict [(''action'', PList [])]) = Inr ''No action needed''
   \<and> action_text sample_lib (PDict [(''action'', PList [PStr ''water''])]) = Inr ''Take action: water''
   \<and> action_text sample_lib (PDict [(''action'', PList [PStr ''water'', PStr ''light''])])
       = Inr ''Take multiple actions: water and light''
   \<and> action_text sample_lib (PDict [(''action'', PList [PStr ''water'', PStr ''light'', PStr ''move''])])
       = Inr ''Take multiple actions: water, light and move''"
  using action_list_coercion [of "[(''action'', PList [])]" sample_lib "''water''" "[]"]
        action_list_coercion [of "[(''action'', PList [PStr ''water''])]" sample_lib "''water''" "[]"]
        action_list_coercion [of "[(''action'', PList [PStr ''water'', PStr ''light''])]" sample_lib
           "''water''" "[''water'', ''light'']"]
        action_list_coercion [of "[(''action'', PList [PStr ''water'', PStr ''light'', PStr ''move''])]"
           sample_lib "''water''" "[''water'', ''light'', ''move'']"]
  by simp

text \<open>
  The clean-up that follows leaves such a sentence as it is, up to the white space that
  \<open>strip\<close> removes at its end.
\<close>

lemma py_strip_Cons:
  "\<not> py_isspace c \<Longrightarrow> py_strip (c # rest) = c # rev (dropWhile py_isspace (rev rest))"
  by (simp add: py_strip_def dropWhile_append3)

lemma clean_action_plain:
  assumes "\<not> py_isspace c" and "c \<noteq> CHR 0x22" and "c \<noteq> CHR 0x27" and "c \<noteq> CHR ''[''"
  shows "clean_action lib (c # rest) = py_strip (c # rest)"
  using assms by (simp add: clean_action_def py_strip_Cons startswith_def endswith_def Let_def)

lemma list_sentence_clean:
  assumes "list_sentence lib xs = Inr s"
  shows "clean_action lib s = py_strip s"
proof -
  have sp: "\<not> py_isspace CHR ''N''" "\<not> py_isspace CHR ''T''" by (simp_all add: py_isspace_def)
  from assms have "(\<exists>rest. s = CHR ''N'' # rest) \<or> (\<exists>rest. s = CHR ''T'' # rest)"
    by (auto simp: list_sentence_def split: if_splits sum.splits)
  then show ?thesis using sp by (auto simp: clean_action_plain)
qed

lemma action_text_ok:
  assumes "case map_of kvs ''action'' of None \<Rightarrow> True | Some v \<Rightarrow> joinable v"
  shows "\<exists>a. action_text lib (PDict kvs) = Inr a"
proof (cases "map_of kvs ''action''")
  case None
  then show ?thesis by (simp add: action_text_def)
next
  case (Some v)
  show ?thesis
  proof (cases v)
    case (PList xs)
    with Some assms have "length xs < 2 \<or> list_all is_str (butlast xs)"
      by (simp add: joinable_def)
    from list_sentence_ok [OF this, of lib] PList Some show ?thesis
      by (simp add: action_text_def)
  qed (use Some in \<open>simp_all add: action_text_def\<close>)
qed

lemma format_result_ok:
  assumes "acceptable lib result"
  shows "\<exists>r. format_result lib result = Inr r"
proof -
  from assms obtain kvs where kvs: "result = PDict kvs"
    by (cases result) (auto simp: acceptable_def)
  from assms kvs have a: "case map_of kvs ''action'' of None \<Rightarrow> True | Some v \<Rightarrow> joinable v"
    by (simp add: acceptable_def)
  from action_text_ok [OF a, of lib] obtain t where t: "action_text lib (PDict kvs) = Inr t" ..
  from assms kvs obtain st where
    st: "validate_status (case map_of kvs ''status'' of Some v \<Rightarrow> v | None \<Rightarrow> PStr ''OK'') = Some st"
    by (cases "map_of kvs ''status''") (auto simp: acceptable_def)
  from assms kvs obtain msg where
    msg: "validate_message lib (case map_of kvs ''message'' of Some v \<Rightarrow> v
                                | None \<Rightarrow> PStr ''Analysis completed'') = Some msg"
  proof (cases "map_of kvs ''message''")
    case None
    then show ?thesis using that by (simp add: validate_message_def)
  next
    case (Some v)
    with assms kvs have "is_str v \<or> pydantic_str lib v \<noteq> None" by (simp add: acceptable_def)
    with Some show ?thesis using that by (cases v) (auto simp: validate_message_def)
  qed
  from kvs t st msg show ?thesis
    by (simp add: format_result_def AnalysisResponse_def)
qed

lemma validate_status_None:
  "v \<noteq> PStr ''OK'' \<Longrightarrow> v \<noteq> PStr ''ALERT'' \<Longrightarrow> validate_status v = None"
  by (cases v) auto

lemma format_result_bad_status:
  assumes "map_of kvs ''status'' = Some v" and "v \<noteq> PStr ''OK''" and "v \<noteq> PStr ''ALERT''"
      and "case map_of kvs ''action'' of None \<Rightarrow> True | Some a \<Rightarrow> joinable a"
  shows "format_result lib (PDict kvs) = Inl (Exn ValidationError ''AnalysisResponse'')"
proof -
  from action_text_ok [OF assms(4), of lib] obtain t where
    t: "action_text lib (PDict kvs) = Inr t" ..
  from assms(2,3) have "validate_status v = None" by (rule validate_status_None)
  with t assms(1) show ?thesis
    by (simp add: format_result_def AnalysisResponse_def)
qed

lemma decode_loads:
  "CHR ''{'' \<in> set response \<Longrightarrow> CHR ''}'' \<in> set response \<Longrightarrow>
   json_loads lib (json_str response) = Inr result \<Longrightarrow>
   fst (decode_response lib response) = Inr result"
  by (simp add: decode_response_def)

text \<open>
  Apart from \<open>JSONDecodeError\<close>, an exception of the decoder is not caught: it ends
  the normalisation.
\<close>

lemma decode_exception_propagates:
  assumes "CHR ''{'' \<in> set response" and "CHR ''}'' \<in> set response"
      and "json_loads lib (json_str response) = Inl e" and "exn_kind e \<noteq> JSONDecodeError"
  shows "normalize_response lib response = (Inl e, [])"
  using assms by (simp add: normalize_response_def decode_response_def)

text \<open>
  Claim C1, as amended.  The normalisation returns a response when the raw text has no
  \<open>{\<close> or no \<open>}\<close>, when decoding the text between the first \<open>{\<close> and the last \<open>}\<close>
  raises \<open>JSONDecodeError\<close>, and when the decoded result is acceptable: a status that
  is absent, \<open>"OK"\<close> or \<open>"ALERT"\<close>, a message that is absent or a string, an action that
  is absent, a string (a list written as a string and a quoted scalar are strings),
  another scalar, or a list with fewer than two items or with strings before its last
  item.  On a decoded object with such an action and a status other than \<open>"OK"\<close> and
  \<open>"ALERT"\<close>, the response model refuses the status: the normalisation raises the
  validation error.
\<close>

theorem normalize_returns:
  "(CHR ''{'' \<notin> set response \<or> CHR ''}'' \<notin> set response
      \<or> (\<exists>e. json_loads lib (json_str response) = Inl e \<and> exn_kind e = JSONDecodeError)
    \<longrightarrow> (\<exists>r. fst (normalize_response lib response) = Inr r))
   \<and> (CHR ''{'' \<in> set response \<and> CHR ''}'' \<in> set response
       \<and> json_loads lib (json_str response) = Inr result \<and> acceptable lib result
    \<longrightarrow> (\<exists>r. fst (normalize_response lib response) = Inr r))
   \<and> (CHR ''{'' \<in> set response \<and> CHR ''}'' \<in> set response
       \<and> json_loads lib (json_str response) = Inr (PDict kvs)
       \<and> map_of kvs ''status'' = Some v \<and> v \<noteq> PStr ''OK'' \<and> v \<noteq> PStr ''ALERT''
       \<and> (case map_of kvs ''action'' of None \<Rightarrow> True | Some a \<Rightarrow> joinable a)
    \<longrightarrow> fst (normalize_response lib response) = Inl (Exn ValidationError ''AnalysisResponse''))"
proof (intro conjI impI)
  assume "CHR ''{'' \<notin> set response \<or> CHR ''}'' \<notin> set response
      \<or> (\<exists>e. json_loads lib (json_str response) = Inl e \<and> exn_kind e = JSONDecodeError)"
  from normalize_format [OF decode_fallback [OF this]]
  show "\<exists>r. fst (normalize_response lib response) = Inr r"
    by (simp add: format_fallback)
next
  assume a: "CHR ''{'' \<in> set response \<and> CHR ''}'' \<in> set response
       \<and> json_loads lib (json_str response) = Inr result \<and> acceptable lib result"
  then have "fst (decode_response lib response) = Inr result" by (simp add: decode_loads)
  from normalize_format [OF this] format_result_ok [of lib result] a
  show "\<exists>r. fst (normalize_response lib response) = Inr r" by simp
next
  assume a: "CHR ''{'' \<in> set response \<and> CHR ''}'' \<in> set response
       \<and> json_loads lib (json_str response) = Inr (PDict kvs)
       \<and> map_of kvs ''status'' = Some v \<and> v \<noteq> PStr ''OK'' \<and> v \<noteq> PStr ''ALERT''
       \<and> (case map_of kvs ''action'' of None \<Rightarrow> True | Some a \<Rightarrow> joinable a)"
  then have "fst (decode_response lib response) = Inr (PDict kvs)" by (simp add: decode_loads)
  from normalize_format [OF this] format_result_bad_status [of kvs v lib] a
  show "fst (normalize_response lib response) = Inl (Exn ValidationError ''AnalysisResponse'')"
    by simp
qed

lemma sample_normalize_two_actions:
  "normalize_response sample_lib raw_two_actions =
     (Inr \<lparr>ar_status = ALERT, ar_message = ''Too dry'',
           ar_action = ''Take multiple actions: water and light''\<rparr>, [])"
  by (simp add: normalize_response_def decode_response_def format_result_def action_text_def
        list_sentence_def py_join_def py_format_def clean_action_def py_strip_def py_isspace_def
        startswith_def endswith_def AnalysisResponse_def validate_message_def
        sample_lib_def sample_loads_def raw_two_actions_def)

theorem normalize_returns_witness:
  "CHR ''{'' \<in> set raw_two_actions \<and> CHR ''}'' \<in> set raw_two_actions
   \<and> json_loads sample_lib (json_str raw_two_actions) =
       Inr (PDict [(''status'', PStr ''ALERT''), (''message'', PStr ''Too dry''),
                   (''action'', PList [PStr ''water'', PStr ''light''])])
   \<and> acceptable sample_lib (PDict [(''status'', PStr ''ALERT''), (''message'', PStr ''Too dry''),
                   (''action'', PList [PStr ''water'', PStr ''light''])])
   \<and> (\<exists>r. fst (normalize_response sample_lib raw_two_actions) = Inr r)
   \<and> (\<exists>r. fst (normalize_response sample_lib []) = Inr r)
   \<and> joinable (PStr ''Water the plant'')
   \<and> fst (normalize_response sample_lib raw_unknown_status) =
       Inl (Exn ValidationError ''AnalysisResponse'')"
proof -
  have b: "CHR ''{'' \<in> set raw_two_actions \<and> CHR ''}'' \<in> set raw_two_actions"
    by (simp add: raw_two_actions_def)
  have l: "json_loads sample_lib (json_str raw_two_actions) =
       Inr (PDict [(''status'', PStr ''ALERT''), (''message'', PStr ''Too dry''),
                   (''action'', PList [PStr ''water'', PStr ''light''])])"
    by (simp add: sample_lib_def sample_loads_def)
  have a: "acceptable sample_lib (PDict [(''status'', PStr ''ALERT''), (''message'', PStr ''Too dry''),
                   (''action'', PList [PStr ''water'', PStr ''light''])])"
    by (simp add: acceptable_def joinable_def)
  have b': "CHR ''{'' \<in> set raw_unknown_status \<and> CHR ''}'' \<in> set raw_unknown_status"
    by (simp add: raw_unknown_status_def)
  have l': "json_loads sample_lib (json_str raw_unknown_status) =
       Inr (PDict [(''status'', PStr ''WARNING''), (''message'', PStr ''Soil is drying''),
                    (''action'', PStr ''Water the plant'')])"
    by (simp add: sample_lib_def sample_loads_def json_str_def py_find_def py_rfind_def
          py_slice_def raw_two_actions_def raw_two_numbers_def raw_unknown_status_def)
  from b l a normalize_returns [of raw_two_actions sample_lib _ "[]" PNone]
  have 1: "\<exists>r. fst (normalize_response sample_lib raw_two_actions) = Inr r" by blast
  from normalize_returns [of "[]" sample_lib PNone "[]" PNone]
  have 2: "\<exists>r. fst (normalize_response sample_lib []) = Inr r" by simp
  from b' l' normalize_returns [of raw_unknown_status sample_lib PNone
         "[(''status'', PStr ''WARNING''), (''message'', PStr ''Soil is drying''),
           (''action'', PStr ''Water the plant'')]" "PStr ''WARNING''"]
  have 3: "fst (normalize_response sample_lib raw_unknown_status) =
       Inl (Exn ValidationError ''AnalysisResponse'')"
    by (simp add: joinable_def)
  have j: "joinable (PStr ''Water the plant'')" by (simp add: joinable_def)
  from b l a 1 2 3 j show ?thesis by blast
qed

text \<open>
  Claim C1 as stated fails on a status that is neither \<open>"OK"\<close> nor \<open>"ALERT"\<close>: the
  constructor of the response model raises a validation error.
\<close>

theorem normalize_status_counterexample:
  "fst (normalize_response sample_lib raw_unknown_status) = Inl (Exn ValidationError ''AnalysisResponse'')"
  by (simp add: normalize_response_def decode_response_def format_result_def action_text_def
        clean_action_def py_strip_def py_isspace_def
        startswith_def endswith_def AnalysisResponse_def validate_message_def
        sample_lib_def sample_loads_def json_str_def py_find_def py_rfind_def
          py_slice_def raw_two_actions_def raw_two_numbers_def raw_unknown_status_def)

text \<open>
  A list written as a string is read back and turned into a sentence; a scalar in
  double quotes loses them.
\<close>

lemma sample_normalize_stringified:
  "fst (normalize_response sample_lib raw_stringified) =
     Inr \<lparr>ar_status = OK, ar_message = ''Analysis completed'',
          ar_action = ''Take multiple actions: a and b''\<rparr>"
  by (simp add: normalize_response_def decode_response_def format_result_def action_text_def
        list_sentence_def py_join_def py_format_def clean_action_def py_strip_def py_isspace_def
        startswith_def endswith_def strip_ends_def AnalysisResponse_def validate_message_def
        sample_lib_def sample_loads_def sample_literal_eval_def list_text_def
        json_str_def py_find_def py_rfind_def py_slice_def
        raw_two_actions_def raw_two_numbers_def raw_unknown_status_def raw_stringified_def)

lemma sample_normalize_quoted:
  "fst (normalize_response sample_lib raw_quoted) =
     Inr \<lparr>ar_status = OK, ar_message = ''Analysis completed'', ar_action = ''Water now''\<rparr>"
  by (simp add: normalize_response_def decode_response_def format_result_def action_text_def
        clean_action_def py_strip_def py_isspace_def
        startswith_def endswith_def strip_ends_def AnalysisResponse_def validate_message_def
        sample_lib_def sample_loads_def raw_quoted_def
        json_str_def py_find_def py_rfind_def py_slice_def
        raw_two_actions_def raw_two_numbers_def raw_unknown_status_def raw_stringified_def)

text \<open>
  A list of two numbers as the action raises \<open>TypeError\<close> in \<open>join\<close>, outside any
  handler.
\<close>

lemma normalize_two_numbers_raises:
  "fst (normalize_response sample_lib raw_two_numbers) =
     Inl (Exn TypeError ''sequence item 0: expected str instance, int found'')"
  by (simp add: normalize_response_def decode_response_def format_result_def action_text_def
        list_sentence_def py_join_def 
        sample_lib_def sample_loads_def json_str_def py_find_def py_rfind_def
          py_slice_def raw_two_actions_def raw_two_numbers_def digit_char_def)

section \<open>Properties of the pipeline\<close>

lemma history_write_fault: "history (db\<lparr>write_fault := w\<rparr>) plant_id limit = history db plant_id limit"
  by (simp add: history_def history_try_def get_db_def query_recent_def split: option.splits)

lemma run_history_write_fault: "run_history (db\<lparr>write_fault := w\<rparr>) st = run_history db st"
  by (simp add: run_history_def history_write_fault)

lemma persist_failure:
  "initialized db \<Longrightarrow> write_fault db = Some e \<Longrightarrow>
   persist ev db st resp ts = (db, [LogError (''Failed to save analysis to database: '' @ exn_str e)])"
  by (simp add: persist_def save_analysis_def Let_def)

text \<open>
  Claim C6.  The value returned or the exception raised by a run is the same whether
  the write to the store fails or not.  When the store is initialised, the write fails
  with an exception and the run returns a response, the store is left as it was and the
  last record logged is the error of the write.
\<close>

theorem persistence_failure_keeps_result:
  "fst (process_with_pipeline ev (db\<lparr>write_fault := Some e\<rparr>) sd ts)
     = fst (process_with_pipeline ev (db\<lparr>write_fault := None\<rparr>) sd ts)
   \<and> (\<forall>r db' lg. initialized db
          \<and> process_with_pipeline ev (db\<lparr>write_fault := Some e\<rparr>) sd ts = (Inr r, db', lg)
        \<longrightarrow> db' = db\<lparr>write_fault := Some e\<rparr> \<and> lg \<noteq> []
            \<and> last lg = LogError (''Failed to save analysis to database: '' @ exn_str e))"
proof (rule conjI)
  show "fst (process_with_pipeline ev (db\<lparr>write_fault := Some e\<rparr>) sd ts)
     = fst (process_with_pipeline ev (db\<lparr>write_fault := None\<rparr>) sd ts)"
    by (simp add: process_with_pipeline_def run_history_write_fault
             split: option.splits sum.splits prod.splits)
next
  show "\<forall>r db' lg. initialized db
          \<and> process_with_pipeline ev (db\<lparr>write_fault := Some e\<rparr>) sd ts = (Inr r, db', lg)
        \<longrightarrow> db' = db\<lparr>write_fault := Some e\<rparr> \<and> lg \<noteq> []
            \<and> last lg = LogError (''Failed to save analysis to database: '' @ exn_str e)"
  proof (intro allI impI)
    fix r db' lg
    assume a: "initialized db
          \<and> process_with_pipeline ev (db\<lparr>write_fault := Some e\<rparr>) sd ts = (Inr r, db', lg)"
    then have p: "\<And>st resp. persist ev (db\<lparr>write_fault := Some e\<rparr>) st resp ts
        = (db\<lparr>write_fault := Some e\<rparr>,
           [LogError (''Failed to save analysis to database: '' @ exn_str e)])"
      by (simp add: persist_failure)
    from a show "db' = db\<lparr>write_fault := Some e\<rparr> \<and> lg \<noteq> []
            \<and> last lg = LogError (''Failed to save analysis to database: '' @ exn_str e)"
      by (auto simp: process_with_pipeline_def p split: option.splits sum.splits prod.splits)
  qed
qed

lemma sample_run_nodes:
  "run_nodes sample_env (create_state sample_reading) =
     (Inr \<lparr>s_humidity = 50, s_light = 1200, s_temperature = 22, s_plant_id = ''basil-001'',
           s_plant_type = ''basil'',
           s_comparisons =
             [(''soil_moisture'',
               \<lparr>parameter = ''soil_moisture'', current = 50,
                  ideal = Scalar 60, difference = - 10, v_status = ALERT,
                  v_message = SoilTooLow 10 60\<rparr>),
              (''temperature'',
               \<lparr>parameter = ''temperature'', current = 22,
                  ideal = Band \<lparr>b_min = 18, b_max = 26, b_ideal = 22\<rparr>,
                  difference = 0, v_status = OK,
                  v_message = TempOptimal 22 22\<rparr>),
              (''light'',
               \<lparr>parameter = ''light'', current = 1200,
                  ideal = Band \<lparr>b_min = 1000, b_max = 2000, b_ideal = 1100\<rparr>,
                  difference = 100, v_status = OK,
                  v_message = LightOptimal 1200 1100\<rparr>)],
           s_history = None\<rparr>, [])"
  by (simp add: run_nodes_def create_state_def sample_reading_def sample_env_def
        soil_moisture_def temperature_def light_def load_plant_data_def sample_plant_def Let_def)

lemma sample_run:
  "fst (process_with_pipeline sample_env sample_db sample_reading None) =
     Inr \<lparr>ar_status = ALERT, ar_message = ''Too dry'',
          ar_action = ''Take multiple actions: water and light''\<rparr>"
proof -
  have a: "e_agent sample_env = Some (\<lambda>p. Inr raw_two_actions)"
    and l: "e_lib sample_env = sample_lib"
    by (simp_all add: sample_env_def)
  show ?thesis
    by (simp add: process_with_pipeline_def a l sample_run_nodes run_history_def sample_history
          build_prompt_def comparison_result_def history_block_def trends_block_def
          trend_prompt_line_def sample_normalize_two_actions split: prod.splits)
qed

theorem persistence_failure_keeps_result_witness:
  "initialized sample_db
   \<and> (\<exists>lg. process_with_pipeline sample_env
         (sample_db\<lparr>write_fault := Some (Exn OtherException ''store unavailable'')\<rparr>)
         sample_reading None =
       (Inr \<lparr>ar_status = ALERT, ar_message = ''Too dry'',
             ar_action = ''Take multiple actions: water and light''\<rparr>,
        sample_db\<lparr>write_fault := Some (Exn OtherException ''store unavailable'')\<rparr>,
        lg @ [LogError ''Failed to save analysis to database: store unavailable'']))"
proof -
  let ?e = "Exn OtherException ''store unavailable''"
  let ?run = "process_with_pipeline sample_env (sample_db\<lparr>write_fault := Some ?e\<rparr>)
                sample_reading None"
  have i: "initialized sample_db" by (simp add: sample_db_def)
  have n: "sample_db\<lparr>write_fault := None\<rparr> = sample_db" by (simp add: sample_db_def)
  note t = persistence_failure_keeps_result
             [where ev = sample_env and db = sample_db and e = ?e and sd = sample_reading
                and ts = None]
  from t have f: "fst ?run = Inr \<lparr>ar_status = ALERT, ar_message = ''Too dry'',
             ar_action = ''Take multiple actions: water and light''\<rparr>"
    by (simp add: n sample_run)
  obtain r db' lg where run: "?run = (r, db', lg)" by (cases ?run)
  with f have r: "r = Inr \<lparr>ar_status = ALERT, ar_message = ''Too dry'',
             ar_action = ''Take multiple actions: water and light''\<rparr>" by simp
  from t i run r have "db' = sample_db\<lparr>write_fault := Some ?e\<rparr>" "lg \<noteq> []"
     "last lg = LogError (''Failed to save analysis to database: '' @ exn_str ?e)"
    by blast+
  with i run r show ?thesis by (cases lg rule: rev_cases) simp_all
qed

text \<open>
  With exactly two analyses of the plant in the store, the trends hold the
  \<open>insufficient_data\<close> entry, which has no \<open>average_historical\<close>; the prompt reads
  that key, and the run raises \<open>KeyError\<close> before the agent is called.
\<close>

lemma two_records_prompt_raises:
  "fst (process_with_pipeline sample_env (sample_db\<lparr>rows := take 3 (rows sample_db)\<rparr>)
          sample_reading None) = Inl (key_error ''average_historical'')"
proof -
  have a: "e_agent sample_env = Some (\<lambda>p. Inr raw_two_actions)"
    by (simp add: sample_env_def)
  have h: "trends_block (case history (sample_db\<lparr>rows := take 3 (rows sample_db)\<rparr>) ''basil-001'' 10 of
              Inr x \<Rightarrow> trends x | Inl e \<Rightarrow> []) = Inl (key_error ''average_historical'')"
    by (simp add: history_def history_try_def get_db_def query_recent_def sample_db_def
        sample_row_def one_day_def analyse_def Let_def metric_trend_def calculate_trend_def
        trends_block_def trend_prompt_line_def)
  have hh: "\<exists>x. history (sample_db\<lparr>rows := take 3 (rows sample_db)\<rparr>) ''basil-001'' 10 = Inr x
           \<and> has_history x \<and> (\<exists>s. summary x = Stats s)"
    by (simp add: history_def history_try_def get_db_def query_recent_def sample_db_def
        sample_row_def one_day_def analyse_def Let_def)
  then obtain x s where x: "history (sample_db\<lparr>rows := take 3 (rows sample_db)\<rparr>) ''basil-001'' 10 = Inr x"
     "has_history x" "summary x = Stats s" by blast
  with h have tb: "trends_block (trends x) = Inl (key_error ''average_historical'')" by simp
  show ?thesis
    by (simp add: process_with_pipeline_def a sample_run_nodes run_history_def x tb
          build_prompt_def comparison_result_def history_block_def split: prod.splits)
qed

end
